theory Spec2Isabelle
  imports Main
begin

text \<open>
  The two providers of the library turn a streamed HTTP body into a live sequence of text
  increments, calls of the caller's callbacks and an aggregated final message, usage and
  stop reason. Each provider's \<^verbatim>\<open>request\<close> is modelled from the result of
  \<^verbatim>\<open>fetch\<close> on: the variables it declares are the fields of a state, the loop body
  between two \<^verbatim>\<open>await reader.read()\<close> is a function on that state, and the three
  deferred accessors are functions of the state in which they are called.
  \<^verbatim>\<open>JSON.parse\<close> is a parameter of every function that calls it.
\<close>

section \<open>Strings as the providers split them\<close>

text \<open>
  A chunk is modelled after \<^verbatim>\<open>TextDecoder.decode\<close>: a \<open>string\<close> whose characters stand
  for the code units of the decoded text (below 256). The providers only ever split a
  chunk at line feeds, test prefixes and cut prefixes off.
\<close>

definition nl :: char where
  "nl = CHR 0x0A"

text \<open>\<^verbatim>\<open>s.split('\n')\<close>: always at least one piece; a trailing line feed gives a last, empty piece.\<close>

fun split_nl :: "string \<Rightarrow> string list" where
  "split_nl [] = [[]]"
| "split_nl (c # cs) =
     (if c = nl then [] # split_nl cs
      else (case split_nl cs of
              [] \<Rightarrow> [[c]]
            | l # ls \<Rightarrow> (c # l) # ls))"

text \<open>\<^verbatim>\<open>s.split('\n\n')\<close>: blocks separated by two line feeds, scanned from the left.\<close>

fun split_nlnl :: "string \<Rightarrow> string list" where
  "split_nlnl [] = [[]]"
| "split_nlnl [c] = [[c]]"
| "split_nlnl (c # d # cs) =
     (if c = nl \<and> d = nl then [] # split_nlnl cs
      else (case split_nlnl (d # cs) of
              [] \<Rightarrow> [[c]]
            | l # ls \<Rightarrow> (c # l) # ls))"

text \<open>The white space and line terminators that \<^verbatim>\<open>String.prototype.trim\<close> removes, below 256.\<close>

definition is_js_space :: "char \<Rightarrow> bool" where
  "is_js_space c = (c = CHR 0x09 \<or> c = CHR 0x0A \<or> c = CHR 0x0B \<or> c = CHR 0x0C
     \<or> c = CHR 0x0D \<or> c = CHR 0x20 \<or> c = CHR 0xA0)"

definition js_trim :: "string \<Rightarrow> string" where
  "js_trim s = rev (dropWhile is_js_space (rev (dropWhile is_js_space s)))"

text \<open>\<^verbatim>\<open>xs.filter(line => line.trim() !== '')\<close>\<close>

definition non_blank :: "string list \<Rightarrow> string list" where
  "non_blank ls = filter (\<lambda>line. js_trim line \<noteq> []) ls"

definition startsWith :: "string \<Rightarrow> string \<Rightarrow> bool" where
  "startsWith s p = (take (length p) s = p)"

text \<open>\<^verbatim>\<open>s.substring(n)\<close>\<close>

definition substring :: "string \<Rightarrow> nat \<Rightarrow> string" where
  "substring s n = drop n s"

text \<open>
  \<^verbatim>\<open>x || d\<close> and the truth test of \<^verbatim>\<open>if (x)\<close> at the two types the providers use them:
  an absent value, the number 0 and the empty string are falsy.
\<close>

definition or_num :: "int option \<Rightarrow> int \<Rightarrow> int" where
  "or_num x d = (case x of None \<Rightarrow> d | Some n \<Rightarrow> if n = 0 then d else n)"

definition or_str :: "string option \<Rightarrow> string \<Rightarrow> string" where
  "or_str x d = (case x of None \<Rightarrow> d | Some s \<Rightarrow> if s = [] then d else s)"

definition truthy_str :: "string option \<Rightarrow> bool" where
  "truthy_str x = (case x of None \<Rightarrow> False | Some s \<Rightarrow> s \<noteq> [])"

section \<open>Shared types (src/types.ts)\<close>

text \<open>
  A JSON value, as \<^verbatim>\<open>JSON.parse\<close> returns it. It is the type of a tool call's
  \<^verbatim>\<open>input\<close> and of an HTTP error body. Numbers are the integers.
\<close>

datatype json =
    JNull
  | JBool bool
  | JNum int
  | JStr string
  | JArr "json list"
  | JObj "(string \<times> json) list"

datatype role = user | assistant | tool

datatype content_part =
    TextPart string
  | ImagePart string string
  | ToolCallPart string string json
  | ToolResultPart string string

text \<open>An entry of \<^verbatim>\<open>Message.toolCalls\<close>: the arguments are a string.\<close>

record tool_call =
  tc_id :: "string option"
  tc_name :: string
  tc_arguments :: string

datatype msg_content = Text string | Parts "content_part list"

record message =
  role :: role
  content :: msg_content
  toolCalls :: "tool_call list option"

record usage =
  inputTokens :: int
  outputTokens :: int
  totalTokens :: "int option"

text \<open>
  Which of the optional callbacks of \<^verbatim>\<open>GenerateParams\<close> the caller has passed. A
  callback is taken to return normally; what it is called with is recorded in the order
  of the calls.
\<close>

record hooks =
  onMessage :: bool
  onError :: bool
  onFinish :: bool

datatype processed_type = text_delta | tool_call_delta | tool_call_start | stop | other

text \<open>The state of the \<^verbatim>\<open>ReadableStream\<close> behind \<^verbatim>\<open>textStream\<close>.\<close>

datatype stream_status = Readable | Closed | Errored

text \<open>What one \<^verbatim>\<open>await reader.read()\<close> gives: a chunk, the end of the body, or a rejection.\<close>

datatype read_result = ReadChunk string | ReadDone | ReadFails string

text \<open>
  The errors the providers create or catch. \<open>SyntaxError\<close> is what \<^verbatim>\<open>JSON.parse\<close>
  throws, \<open>ReadRejected\<close> a rejected \<^verbatim>\<open>reader.read()\<close>, \<open>ApiError\<close> and
  \<open>StreamApiError\<close> the \<^verbatim>\<open>new Error(...)\<close> of a non-OK response and of an in-band
  error event (with the values interpolated into the message instead of the text).
\<close>

datatype js_error =
    SyntaxError
  | TypeError
  | ReferenceError string
  | ReadRejected string
  | ApiError nat "json option list"
  | StreamApiError "string option" "string option"

datatype raw_error =
    RawData string
  | RawThrown js_error
  | RawBody json
  | RawApiError "(string option \<times> string option) option"

text \<open>
  A call of a callback, in the order the calls are made; \<open>'d\<close> is the provider's
  \<^verbatim>\<open>chunk.data\<close>, \<open>'c\<close> its \<^verbatim>\<open>rawChunk\<close>. The time stamps are left out.
\<close>

datatype ('d, 'c) hook_event =
    OnMessage processed_type 'd 'c
  | OnError js_error raw_error
  | OnFinish "message option" "usage option" "string option"

text \<open>
  What both providers' streaming paths share: the strings handed to
  \<^verbatim>\<open>controller.enqueue\<close> in order, the state of the stream, whether the
  \<^verbatim>\<open>finally\<close> block of \<^verbatim>\<open>start\<close> has run (it releases the reader's lock and calls
  \<^verbatim>\<open>onFinish\<close>), and the callbacks called so far.
\<close>

record ('d, 'c) fan_out =
  enqueued :: "string list"
  status :: stream_status
  finished :: bool
  hook_log :: "('d, 'c) hook_event list"

section \<open>The OpenAI provider (src/providers/openai.ts)\<close>

subsection \<open>A parsed frame\<close>

text \<open>
  The value of \<^verbatim>\<open>JSON.parse(dataStr)\<close> seen through the property reads of
  \<^verbatim>\<open>processChunk\<close>, at the types of the chat-completions protocol: an absent or
  \<^verbatim>\<open>null\<close> property is \<open>None\<close>.
\<close>

datatype fn_delta = FnDelta (fn_name: "string option") (fn_arguments: "string option")

datatype tc_delta =
  ToolCallDelta (tcd_index: nat) (tcd_id: "string option") (tcd_function: "fn_delta option")

datatype delta =
  Delta (delta_content: "string option") (delta_tool_calls: "tc_delta list option")

datatype choice =
  Choice (choice_delta: "delta option") (choice_finish_reason: "string option")

datatype wire_usage =
  WireUsage (prompt_tokens: "int option") (completion_tokens: "int option")
    (total_tokens: "int option")

datatype openai_chunk =
  OpenAIChunk (choices: "choice list option") (chunk_usage: "wire_usage option")

datatype openai_data =
    DataText string
  | DataToolCalls "tc_delta list"
  | DataChunk openai_chunk

text \<open>\<^verbatim>\<open>chunkData.choices?.[0]\<close>\<close>

definition first_choice :: "openai_chunk \<Rightarrow> choice option" where
  "first_choice c =
     (case choices c of
        None \<Rightarrow> None
      | Some [] \<Rightarrow> None
      | Some (x # _) \<Rightarrow> Some x)"

text \<open>\<^verbatim>\<open>chunkData.choices?.[0]?.delta\<close>\<close>

definition first_delta :: "openai_chunk \<Rightarrow> delta option" where
  "first_delta c = (case first_choice c of None \<Rightarrow> None | Some ch \<Rightarrow> choice_delta ch)"

text \<open>\<^verbatim>\<open>chunkData.choices?.[0]?.delta?.content\<close>\<close>

definition first_content :: "openai_chunk \<Rightarrow> string option" where
  "first_content c = (case first_delta c of None \<Rightarrow> None | Some d \<Rightarrow> delta_content d)"

text \<open>\<^verbatim>\<open>chunkData.choices?.[0]?.finish_reason\<close>\<close>

definition first_finish_reason :: "openai_chunk \<Rightarrow> string option" where
  "first_finish_reason c =
     (case first_choice c of None \<Rightarrow> None | Some ch \<Rightarrow> choice_finish_reason ch)"

subsection \<open>The state of one streaming call\<close>

record openai_stream = "(openai_data, openai_chunk) fan_out" +
  aggregatedContent :: string
  aggregatedToolCalls :: "tool_call list"
  finalStopReason :: "string option"
  finalUsage :: usage

definition openai_init :: openai_stream where
  "openai_init =
     \<lparr>enqueued = [], status = Readable, finished = False, hook_log = [],
      aggregatedContent = [], aggregatedToolCalls = [], finalStopReason = None,
      finalUsage = \<lparr>inputTokens = 0, outputTokens = 0, totalTokens = Some 0\<rparr>\<rparr>"

subsection \<open>processChunk\<close>

text \<open>The body of \<^verbatim>\<open>delta.tool_calls.forEach\<close>.\<close>

definition add_tool_call_delta :: "tool_call list \<Rightarrow> tc_delta \<Rightarrow> tool_call list" where
  "add_tool_call_delta tcs d =
     (let fname = (case tcd_function d of None \<Rightarrow> None | Some f \<Rightarrow> fn_name f);
          fargs = (case tcd_function d of None \<Rightarrow> None | Some f \<Rightarrow> fn_arguments f)
      in if tcd_index d \<ge> length tcs
         then tcs @ [\<lparr>tc_id = tcd_id d, tc_name = or_str fname [], tc_arguments = or_str fargs []\<rparr>]
         else (let existingTc = tcs ! tcd_index d;
                   named = (if truthy_str fname
                            then existingTc\<lparr>tc_name := tc_name existingTc @ the fname\<rparr>
                            else existingTc);
                   argued = (if truthy_str fargs
                             then named\<lparr>tc_arguments := tc_arguments named @ the fargs\<rparr>
                             else named)
               in tcs[tcd_index d := argued]))"

text \<open>The block under \<^verbatim>\<open>if (onMessage)\<close>: it aggregates, then calls the callback.\<close>

definition message_block :: "openai_stream \<Rightarrow> openai_chunk \<Rightarrow> openai_stream" where
  "message_block st chunkData =
     (let d = first_delta chunkData;
          dcontent = (case d of None \<Rightarrow> None | Some x \<Rightarrow> delta_content x);
          dtools = (case d of None \<Rightarrow> None | Some x \<Rightarrow> delta_tool_calls x)
      in if truthy_str dcontent
         then st\<lparr>aggregatedContent := aggregatedContent st @ the dcontent,
                 hook_log := hook_log st @ [OnMessage text_delta (DataText (the dcontent)) chunkData]\<rparr>
         else (case dtools of
                 Some tcs \<Rightarrow>
                   st\<lparr>aggregatedToolCalls := foldl add_tool_call_delta (aggregatedToolCalls st) tcs,
                      hook_log := hook_log st @ [OnMessage tool_call_delta (DataToolCalls tcs) chunkData]\<rparr>
               | None \<Rightarrow>
                   st\<lparr>hook_log := hook_log st @ [OnMessage other (DataChunk chunkData) chunkData]\<rparr>))"

definition update_stop_reason :: "openai_stream \<Rightarrow> openai_chunk \<Rightarrow> openai_stream" where
  "update_stop_reason st chunkData =
     (if truthy_str (first_finish_reason chunkData)
      then st\<lparr>finalStopReason := first_finish_reason chunkData\<rparr>
      else st)"

definition update_usage :: "openai_stream \<Rightarrow> openai_chunk \<Rightarrow> openai_stream" where
  "update_usage st chunkData =
     (case chunk_usage chunkData of
        None \<Rightarrow> st
      | Some u \<Rightarrow>
          st\<lparr>finalUsage :=
               \<lparr>inputTokens = or_num (prompt_tokens u) (inputTokens (finalUsage st)),
                outputTokens = or_num (completion_tokens u) (outputTokens (finalUsage st)),
                totalTokens =
                  (case total_tokens u of
                     None \<Rightarrow> totalTokens (finalUsage st)
                   | Some t \<Rightarrow> if t = 0 then totalTokens (finalUsage st) else Some t)\<rparr>\<rparr>)"

text \<open>The \<^verbatim>\<open>try\<close> block of \<^verbatim>\<open>processChunk\<close> once \<^verbatim>\<open>JSON.parse\<close> has returned.\<close>

definition apply_chunk :: "hooks \<Rightarrow> openai_stream \<Rightarrow> openai_chunk \<Rightarrow> openai_stream" where
  "apply_chunk h st chunkData =
     update_usage
       (update_stop_reason (if onMessage h then message_block st chunkData else st) chunkData)
       chunkData"

text \<open>The \<^verbatim>\<open>catch\<close> block of \<^verbatim>\<open>processChunk\<close>.\<close>

definition frame_error :: "hooks \<Rightarrow> openai_stream \<Rightarrow> string \<Rightarrow> openai_stream" where
  "frame_error h st dataStr =
     (if onError h then st\<lparr>hook_log := hook_log st @ [OnError SyntaxError (RawData dataStr)]\<rparr>
      else st)"

text \<open>
  The loop over the lines of a chunk. \<open>decode\<close> is \<^verbatim>\<open>JSON.parse\<close> followed by the typed
  view above; \<open>None\<close> when \<^verbatim>\<open>JSON.parse\<close> throws. At the sentinel the function returns,
  and the lines after it are not looked at.
\<close>

fun processLines ::
  "(string \<Rightarrow> openai_chunk option) \<Rightarrow> hooks \<Rightarrow> openai_stream \<Rightarrow> string list \<Rightarrow> openai_stream"
where
  "processLines decode h st [] = st"
| "processLines decode h st (line # lines) =
     (if startsWith line ''data: ''
      then (let dataStr = substring line 6
            in if dataStr = ''[DONE]'' then st
               else (case decode dataStr of
                       Some chunkData \<Rightarrow> processLines decode h (apply_chunk h st chunkData) lines
                     | None \<Rightarrow> processLines decode h (frame_error h st dataStr) lines))
      else processLines decode h st lines)"

definition processChunk ::
  "(string \<Rightarrow> openai_chunk option) \<Rightarrow> hooks \<Rightarrow> openai_stream \<Rightarrow> string \<Rightarrow> openai_stream"
where
  "processChunk decode h st val = processLines decode h st (non_blank (split_nl val))"

subsection \<open>The read loop of textStream\<close>

text \<open>
  The second pass over the lines of a chunk, in \<^verbatim>\<open>start\<close>: it parses each line again and
  enqueues the text. The result says whether the pass has left \<^verbatim>\<open>start\<close> at the sentinel
  (after \<^verbatim>\<open>controller.close()\<close>).
\<close>

fun enqueueLines ::
  "(string \<Rightarrow> openai_chunk option) \<Rightarrow> openai_stream \<Rightarrow> string list \<Rightarrow> bool \<times> openai_stream"
where
  "enqueueLines decode st [] = (False, st)"
| "enqueueLines decode st (line # lines) =
     (if startsWith line ''data: ''
      then (let dataStr = substring line 6
            in if dataStr = ''[DONE]'' then (True, st\<lparr>status := Closed\<rparr>)
               else (case decode dataStr of
                       Some parsed \<Rightarrow>
                         (if truthy_str (first_content parsed)
                          then enqueueLines decode
                                 (st\<lparr>enqueued := enqueued st @ [the (first_content parsed)]\<rparr>) lines
                          else enqueueLines decode st lines)
                     | None \<Rightarrow> enqueueLines decode st lines))
      else enqueueLines decode st lines)"

text \<open>
  \<^verbatim>\<open>controller.desiredSize\<close>: \<^verbatim>\<open>null\<close> for an errored stream, 0 for a closed one, else
  the high-water mark (1) minus the strings the consumer has not taken yet; \<open>taken\<close> is
  how many it has taken.
\<close>

definition desiredSize :: "openai_stream \<Rightarrow> nat \<Rightarrow> int option" where
  "desiredSize st taken =
     (case status st of
        Errored \<Rightarrow> None
      | Closed \<Rightarrow> Some 0
      | Readable \<Rightarrow> Some (1 - (int (length (enqueued st)) - int taken)))"

text \<open>The message both \<^verbatim>\<open>onFinish\<close> and \<^verbatim>\<open>finalResponse()\<close> build from the variables.\<close>

definition finalMessage :: "openai_stream \<Rightarrow> message" where
  "finalMessage st =
     \<lparr>role = assistant, content = Text (aggregatedContent st),
      toolCalls = (if length (aggregatedToolCalls st) > 0 then Some (aggregatedToolCalls st)
                   else None)\<rparr>"

text \<open>
  The \<^verbatim>\<open>finally\<close> block of \<^verbatim>\<open>start\<close>. Its first test,
  \<^verbatim>\<open>!controller.desiredSize === null\<close>, compares a boolean with \<^verbatim>\<open>null\<close> and is
  false; the second, \<^verbatim>\<open>controller.desiredSize <= 0\<close>, holds for \<^verbatim>\<open>null\<close> too.
\<close>

definition finally_block :: "hooks \<Rightarrow> nat \<Rightarrow> openai_stream \<Rightarrow> openai_stream" where
  "finally_block h taken st =
     (let skip_close = (case desiredSize st taken of None \<Rightarrow> True | Some n \<Rightarrow> n \<le> 0);
          st1 = (if skip_close then st else st\<lparr>status := Closed\<rparr>);
          st2 = (if onFinish h
                 then st1\<lparr>hook_log := hook_log st1 @
                        [OnFinish (Some (finalMessage st1)) (Some (finalUsage st1))
                           (finalStopReason st1)]\<rparr>
                 else st1)
      in st2\<lparr>finished := True\<rparr>)"

text \<open>The \<^verbatim>\<open>catch\<close> block of \<^verbatim>\<open>start\<close>; only a readable stream becomes errored.\<close>

definition catch_block :: "hooks \<Rightarrow> openai_stream \<Rightarrow> js_error \<Rightarrow> openai_stream" where
  "catch_block h st e =
     (let st1 = (if status st = Readable then st\<lparr>status := Errored\<rparr> else st)
      in if onError h then st1\<lparr>hook_log := hook_log st1 @ [OnError e (RawThrown e)]\<rparr> else st1)"

text \<open>
  One turn of \<^verbatim>\<open>while (true)\<close>, from the result of \<^verbatim>\<open>await reader.read()\<close> to the next
  \<^verbatim>\<open>await reader.read()\<close> or to the end of \<^verbatim>\<open>start\<close>. Once \<^verbatim>\<open>start\<close> has ended nothing
  is read any more.
\<close>

definition on_read ::
  "(string \<Rightarrow> openai_chunk option) \<Rightarrow> hooks \<Rightarrow> nat \<Rightarrow> openai_stream \<Rightarrow> read_result \<Rightarrow> openai_stream"
where
  "on_read decode h taken st r =
     (if finished st then st
      else (case r of
              ReadDone \<Rightarrow> finally_block h taken st
            | ReadFails msg \<Rightarrow> finally_block h taken (catch_block h st (ReadRejected msg))
            | ReadChunk val \<Rightarrow>
                (let st1 = processChunk decode h st val;
                     (returned, st2) = enqueueLines decode st1 (non_blank (split_nl val))
                 in if returned then finally_block h taken st2 else st2)))"

text \<open>
  The state of a streaming call after the given reads, from the variables as
  \<^verbatim>\<open>request\<close> initialises them. A call is over when its reads end with the end of the
  body or a failure; a proper prefix of them gives the state at the \<^verbatim>\<open>await\<close> where
  \<^verbatim>\<open>start\<close> is suspended then.
\<close>

definition openai_run ::
  "(string \<Rightarrow> openai_chunk option) \<Rightarrow> hooks \<Rightarrow> nat \<Rightarrow> read_result list \<Rightarrow> openai_stream"
where
  "openai_run decode h taken reads = foldl (on_read decode h taken) openai_init reads"

subsection \<open>The deferred accessors of GenerateResultStreaming\<close>

text \<open>
  Each is an \<^verbatim>\<open>async\<close> arrow function that reads the variables and returns: the promise
  it gives is resolved with the values of the variables at the time of the call.
\<close>

definition finalResponse :: "openai_stream \<Rightarrow> message" where
  "finalResponse st = finalMessage st"

definition usage_accessor :: "openai_stream \<Rightarrow> usage" where
  "usage_accessor st = finalUsage st"

definition stopReason :: "openai_stream \<Rightarrow> string option" where
  "stopReason st = finalStopReason st"

section \<open>The Anthropic provider (src/providers/anthropic.ts)\<close>

subsection \<open>A parsed event\<close>

text \<open>
  \<^verbatim>\<open>eventData.delta\<close> by its \<^verbatim>\<open>type\<close>: a text delta with its text, an input-JSON delta
  with its partial JSON, or an object of another or no type with its \<^verbatim>\<open>stop_reason\<close>
  (the delta of a \<^verbatim>\<open>message_delta\<close> event).
\<close>

datatype a_delta = TextDelta string | InputJsonDelta string | PlainDelta "string option"

text \<open>
  The value of \<^verbatim>\<open>JSON.parse(dataStr)\<close> seen through the property reads of the event
  loop: \<^verbatim>\<open>message?.usage?.input_tokens\<close>, \<^verbatim>\<open>delta\<close>, \<^verbatim>\<open>index\<close>,
  \<^verbatim>\<open>usage?.output_tokens\<close> and \<^verbatim>\<open>error\<close> with its \<^verbatim>\<open>type\<close> and \<^verbatim>\<open>message\<close>.
\<close>

datatype anthropic_event =
  AnthropicEvent (message_input_tokens: "int option") (event_delta: "a_delta option")
    (event_index: "nat option") (usage_output_tokens: "int option")
    (event_error: "(string option \<times> string option) option")

datatype anthropic_data =
    NamedEvent string anthropic_event
  | TextData string
  | ToolUseData "nat option" string
  | EventData anthropic_event

text \<open>\<^verbatim>\<open>eventData.delta?.stop_reason\<close>\<close>

definition delta_stop_reason :: "anthropic_event \<Rightarrow> string option" where
  "delta_stop_reason ev =
     (case event_delta ev of
        Some (PlainDelta r) \<Rightarrow> r
      | _ \<Rightarrow> None)"

subsection \<open>The state of one streaming call\<close>

text \<open>
  The variables \<^verbatim>\<open>currentToolCalls\<close>, \<^verbatim>\<open>finalToolCalls\<close> and \<^verbatim>\<open>currentMessage\<close> are
  initialised and never read or written again; they are left out.
\<close>

record anthropic_stream = "(anthropic_data, anthropic_event) fan_out" +
  aggregatedTextContent :: string
  finalMessageContentBlocks :: "content_part list"
  currentUsage :: usage
  currentStopReason :: "string option"

definition anthropic_init :: anthropic_stream where
  "anthropic_init =
     \<lparr>enqueued = [], status = Readable, finished = False, hook_log = [],
      aggregatedTextContent = [], finalMessageContentBlocks = [],
      currentUsage = \<lparr>inputTokens = 0, outputTokens = 0, totalTokens = None\<rparr>,
      currentStopReason = None\<rparr>"

subsection \<open>One event block\<close>

text \<open>The loop over the lines of a block: the last event name, the data lines joined.\<close>

definition block_line :: "string option \<times> string \<Rightarrow> string \<Rightarrow> string option \<times> string" where
  "block_line acc line =
     (if startsWith line ''event: '' then (Some (js_trim (substring line 7)), snd acc)
      else if startsWith line ''data: '' then (fst acc, snd acc @ substring line 6)
      else acc)"

definition block_fields :: "string \<Rightarrow> string option \<times> string" where
  "block_fields eventLine = foldl block_line (None, []) (split_nl eventLine)"

definition a_message ::
  "hooks \<Rightarrow> anthropic_stream \<Rightarrow> processed_type \<Rightarrow> anthropic_data \<Rightarrow> anthropic_event \<Rightarrow> anthropic_stream"
where
  "a_message h st ty dat raw =
     (if onMessage h then st\<lparr>hook_log := hook_log st @ [OnMessage ty dat raw]\<rparr> else st)"

definition a_error ::
  "hooks \<Rightarrow> anthropic_stream \<Rightarrow> js_error \<Rightarrow> raw_error \<Rightarrow> anthropic_stream"
where
  "a_error h st e raw =
     (if onError h then st\<lparr>hook_log := hook_log st @ [OnError e raw]\<rparr> else st)"

text \<open>How the body of the loop over the blocks ends for one block.\<close>

datatype outcome = Continue | Break | Return

text \<open>
  The \<^verbatim>\<open>try\<close> block for one parsed event. A \<^verbatim>\<open>content_block_delta\<close> event without a
  delta throws at \<^verbatim>\<open>delta.type\<close> into the \<^verbatim>\<open>catch\<close> of the block.
\<close>

definition handle_event ::
  "hooks \<Rightarrow> anthropic_stream \<Rightarrow> string \<Rightarrow> string \<Rightarrow> anthropic_event
     \<Rightarrow> outcome \<times> anthropic_stream"
where
  "handle_event h st eventName dataStr eventData =
     (if eventName = ''message_start'' then
        (Continue,
         a_message h
           (st\<lparr>currentUsage := (currentUsage st)
                  \<lparr>inputTokens := or_num (message_input_tokens eventData) 0\<rparr>\<rparr>)
           other (NamedEvent eventName eventData) eventData)
      else if eventName = ''content_block_start'' then
        (Continue, a_message h st other (NamedEvent eventName eventData) eventData)
      else if eventName = ''content_block_delta'' then
        (case event_delta eventData of
           None \<Rightarrow> (Continue, a_error h st TypeError (RawData dataStr))
         | Some (TextDelta t) \<Rightarrow>
             (Continue,
              a_message h
                (st\<lparr>aggregatedTextContent := aggregatedTextContent st @ t,
                    enqueued := enqueued st @ [t]\<rparr>)
                text_delta (TextData t) eventData)
         | Some (InputJsonDelta partial_json) \<Rightarrow>
             (Continue,
              a_message h st tool_call_delta
                (ToolUseData (event_index eventData) partial_json) eventData)
         | Some (PlainDelta r) \<Rightarrow>
             (Continue, a_message h st other (EventData eventData) eventData))
      else if eventName = ''content_block_stop'' then
        (Continue, a_message h st other (NamedEvent eventName eventData) eventData)
      else if eventName = ''message_delta'' then
        (let st1 = st\<lparr>currentUsage := (currentUsage st)
                       \<lparr>outputTokens :=
                          or_num (usage_output_tokens eventData)
                            (outputTokens (currentUsage st))\<rparr>\<rparr>;
             st2 = (if truthy_str (delta_stop_reason eventData)
                    then st1\<lparr>currentStopReason := delta_stop_reason eventData\<rparr>
                    else st1)
         in (Continue, a_message h st2 other (NamedEvent eventName eventData) eventData))
      else if eventName = ''message_stop'' then
        (Break, a_message h st stop (NamedEvent eventName eventData) eventData)
      else if eventName = ''ping'' then (Continue, st)
      else if eventName = ''error'' then
        (let ty = (case event_error eventData of None \<Rightarrow> None | Some e \<Rightarrow> fst e);
             msg = (case event_error eventData of None \<Rightarrow> None | Some e \<Rightarrow> snd e);
             st1 = a_error h st (StreamApiError ty msg) (RawApiError (event_error eventData))
         in (Return, st1\<lparr>status := (if status st1 = Readable then Errored else status st1)\<rparr>))
      else (Continue, st))"

text \<open>
  The loop over the blocks of a chunk. \<open>decode\<close> is \<^verbatim>\<open>JSON.parse\<close> followed by the typed
  view; \<open>None\<close> when it throws. A block without an event name or without data is
  skipped.
\<close>

fun process_events ::
  "(string \<Rightarrow> anthropic_event option) \<Rightarrow> hooks \<Rightarrow> anthropic_stream \<Rightarrow> string list
     \<Rightarrow> outcome \<times> anthropic_stream"
where
  "process_events decode h st [] = (Continue, st)"
| "process_events decode h st (eventLine # eventLines) =
     (let eventName = fst (block_fields eventLine);
          dataStr = snd (block_fields eventLine)
      in if \<not> truthy_str eventName \<or> dataStr = [] then process_events decode h st eventLines
         else (case decode dataStr of
                 None \<Rightarrow>
                   process_events decode h (a_error h st SyntaxError (RawData dataStr)) eventLines
               | Some eventData \<Rightarrow>
                   (case handle_event h st (the eventName) dataStr eventData of
                      (Continue, st1) \<Rightarrow> process_events decode h st1 eventLines
                    | (Break, st1) \<Rightarrow> (Break, st1)
                    | (Return, st1) \<Rightarrow> (Return, st1))))"

subsection \<open>The read loop of textStream\<close>

text \<open>The \<^verbatim>\<open>catch\<close> block of \<^verbatim>\<open>start\<close>.\<close>

definition a_catch_block :: "hooks \<Rightarrow> anthropic_stream \<Rightarrow> js_error \<Rightarrow> anthropic_stream" where
  "a_catch_block h st e =
     a_error h (if status st = Readable then st\<lparr>status := Errored\<rparr> else st) e (RawThrown e)"

text \<open>
  The \<^verbatim>\<open>finally\<close> block of \<^verbatim>\<open>start\<close>: \<^verbatim>\<open>streamController.close()\<close> swallows the
  exception of a stream that is not readable; the text is pushed onto
  \<^verbatim>\<open>finalMessageContentBlocks\<close> and the total is written into \<^verbatim>\<open>currentUsage\<close>.
\<close>

definition a_finally_block :: "hooks \<Rightarrow> anthropic_stream \<Rightarrow> anthropic_stream" where
  "a_finally_block h st =
     (let st1 = (if status st = Readable then st\<lparr>status := Closed\<rparr> else st);
          st2 = st1\<lparr>finalMessageContentBlocks :=
                      finalMessageContentBlocks st1 @ [TextPart (aggregatedTextContent st1)],
                   currentUsage := (currentUsage st1)
                      \<lparr>totalTokens := Some (inputTokens (currentUsage st1)
                                             + outputTokens (currentUsage st1))\<rparr>\<rparr>;
          st3 = (if onFinish h
                 then st2\<lparr>hook_log := hook_log st2 @
                        [OnFinish
                           (Some \<lparr>role = assistant, content = Parts (finalMessageContentBlocks st2),
                                   toolCalls = None\<rparr>)
                           (Some (currentUsage st2)) (currentStopReason st2)]\<rparr>
                 else st2)
      in st3\<lparr>finished := True\<rparr>)"

text \<open>
  One turn of \<^verbatim>\<open>while (true)\<close>. After the loop over the blocks the source tests
  \<^verbatim>\<open>eventName === 'message_stop'\<close>, but \<^verbatim>\<open>eventName\<close> is declared with \<^verbatim>\<open>let\<close> inside
  the body of that loop and is not in scope here: evaluating the test throws a
  ReferenceError, which the \<^verbatim>\<open>catch\<close> of \<^verbatim>\<open>start\<close> receives. So no second chunk is
  ever read.
\<close>

definition a_on_read ::
  "(string \<Rightarrow> anthropic_event option) \<Rightarrow> hooks \<Rightarrow> anthropic_stream \<Rightarrow> read_result
     \<Rightarrow> anthropic_stream"
where
  "a_on_read decode h st r =
     (if finished st then st
      else (case r of
              ReadDone \<Rightarrow> a_finally_block h st
            | ReadFails msg \<Rightarrow> a_finally_block h (a_catch_block h st (ReadRejected msg))
            | ReadChunk val \<Rightarrow>
                (case process_events decode h st (non_blank (split_nlnl val)) of
                   (Return, st1) \<Rightarrow> a_finally_block h st1
                 | (_, st1) \<Rightarrow>
                     a_finally_block h (a_catch_block h st1 (ReferenceError ''eventName'')))))"

definition anthropic_run ::
  "(string \<Rightarrow> anthropic_event option) \<Rightarrow> hooks \<Rightarrow> read_result list \<Rightarrow> anthropic_stream"
where
  "anthropic_run decode h reads = foldl (a_on_read decode h) anthropic_init reads"

subsection \<open>The deferred accessors of GenerateResultStreaming\<close>

text \<open>
  \<^verbatim>\<open>finalResponse()\<close> assigns a new array to \<^verbatim>\<open>finalMessageContentBlocks\<close> and returns a
  message that holds it: the second component is the state it leaves behind.
\<close>

definition a_finalResponse :: "anthropic_stream \<Rightarrow> message \<times> anthropic_stream" where
  "a_finalResponse st =
     (let blocks = (if aggregatedTextContent st \<noteq> [] then [TextPart (aggregatedTextContent st)]
                    else [])
      in (\<lparr>role = assistant, content = Parts blocks, toolCalls = None\<rparr>,
          st\<lparr>finalMessageContentBlocks := blocks\<rparr>))"

definition a_usage :: "anthropic_stream \<Rightarrow> usage" where
  "a_usage st =
     (currentUsage st)
       \<lparr>totalTokens := Some (inputTokens (currentUsage st) + outputTokens (currentUsage st))\<rparr>"

definition a_stopReason :: "anthropic_stream \<Rightarrow> string option" where
  "a_stopReason st = currentStopReason st"

section \<open>From the HTTP response to the result of request\<close>

text \<open>
  What \<^verbatim>\<open>await fetch(...)\<close> gives: a rejection, or a response with its \<^verbatim>\<open>ok\<close> flag,
  status, status text and what reading its body gives.
\<close>

datatype body_read = BodyText string | BodyRejected string

datatype http_response =
  HttpResponse (ok: bool) (http_status: nat) (statusText: string) (body: body_read)

datatype fetch_result = FetchRejected string | Fetched http_response

text \<open>\<^verbatim>\<open>GenerateResultNonStreaming\<close>, and \<^verbatim>\<open>GenerateResult\<close> with the streaming object opaque.\<close>

record non_streaming =
  ns_response :: "message option"
  ns_usage :: "usage option"
  ns_stopReason :: "string option"

datatype generate_result = NonStreaming non_streaming | Streaming

datatype 'a promise = Resolved 'a | Rejected js_error

definition error_result :: generate_result where
  "error_result =
     NonStreaming \<lparr>ns_response = None, ns_usage = None, ns_stopReason = Some ''error''\<rparr>"

subsection \<open>Property reads on an untyped JSON value\<close>

text \<open>
  \<^verbatim>\<open>j.k\<close> for a value that is not \<^verbatim>\<open>null\<close>, at the keys \<^verbatim>\<open>error\<close>, \<^verbatim>\<open>message\<close> and
  \<^verbatim>\<open>type\<close>: only an object can have them (the keys of a parsed object are distinct).
  \<open>None\<close> is \<^verbatim>\<open>undefined\<close>.
\<close>

definition get_prop :: "json \<Rightarrow> string \<Rightarrow> json option" where
  "get_prop j k = (case j of JObj kvs \<Rightarrow> map_of kvs k | _ \<Rightarrow> None)"

text \<open>\<^verbatim>\<open>x?.k\<close>\<close>

definition opt_prop :: "json option \<Rightarrow> string \<Rightarrow> json option" where
  "opt_prop x k =
     (case x of
        None \<Rightarrow> None
      | Some JNull \<Rightarrow> None
      | Some j \<Rightarrow> get_prop j k)"

definition truthy_json :: "json option \<Rightarrow> bool" where
  "truthy_json x =
     (case x of
        None \<Rightarrow> False
      | Some JNull \<Rightarrow> False
      | Some (JBool b) \<Rightarrow> b
      | Some (JNum n) \<Rightarrow> n \<noteq> 0
      | Some (JStr s) \<Rightarrow> s \<noteq> []
      | Some _ \<Rightarrow> True)"

definition or_json :: "json option \<Rightarrow> json option \<Rightarrow> json option" where
  "or_json a b = (if truthy_json a then a else b)"

text \<open>
  The error body of a non-streaming response that is not OK: the parsed text, or the
  stand-in object when \<^verbatim>\<open>JSON.parse\<close> throws. \<open>parse\<close> is \<^verbatim>\<open>JSON.parse\<close>.
\<close>

definition error_body :: "(string \<Rightarrow> json option) \<Rightarrow> http_response \<Rightarrow> string \<Rightarrow> json" where
  "error_body parse resp responseText =
     (case parse responseText of
        Some j \<Rightarrow> j
      | None \<Rightarrow> JObj [(''message'', JStr (statusText resp)), (''details'', JStr responseText)])"

text \<open>The same for a streaming request: \<^verbatim>\<open>response.json().catch(() => ({ message }))\<close>.\<close>

definition stream_error_body :: "(string \<Rightarrow> json option) \<Rightarrow> http_response \<Rightarrow> json" where
  "stream_error_body parse resp =
     (case body resp of
        BodyRejected msg \<Rightarrow> JObj [(''message'', JStr (statusText resp))]
      | BodyText t \<Rightarrow>
          (case parse t of
             Some j \<Rightarrow> j
           | None \<Rightarrow> JObj [(''message'', JStr (statusText resp))]))"

text \<open>\<^verbatim>\<open>errorBody.error?.k || errorBody.k\<close>\<close>

definition error_field :: "json \<Rightarrow> string \<Rightarrow> json option" where
  "error_field errorBody k = or_json (opt_prop (get_prop errorBody ''error'') k) (get_prop errorBody k)"

text \<open>The outer \<^verbatim>\<open>catch\<close> of \<^verbatim>\<open>request\<close>, the same in both providers.\<close>

definition outer_catch ::
  "hooks \<Rightarrow> bool \<Rightarrow> ('d, 'c) hook_event list \<Rightarrow> js_error
     \<Rightarrow> generate_result promise \<times> ('d, 'c) hook_event list"
where
  "outer_catch h stream log e =
     (let log1 = (if onError h then log @ [OnError e (RawThrown e)] else log)
      in if \<not> stream then (Resolved error_result, log1) else (Rejected e, log1))"

text \<open>\<^verbatim>\<open>x || null\<close> for the stop reason passed to \<^verbatim>\<open>onFinish\<close>.\<close>

definition or_null :: "string option \<Rightarrow> string option" where
  "or_null x = (if truthy_str x then x else None)"

subsection \<open>OpenAI\<close>

text \<open>
  The parsed body of an OK response through the reads of the non-streaming branch:
  \<^verbatim>\<open>choices[0]?.message?.content\<close>, \<^verbatim>\<open>choices[0]?.message?.tool_calls\<close>, \<^verbatim>\<open>usage\<close>
  and \<^verbatim>\<open>choices[0]?.finish_reason\<close>.
\<close>

datatype openai_response =
  OpenAIResponse (resp_content: "string option") (resp_tool_calls: "tool_call list option")
    (resp_usage: "wire_usage option") (resp_finish_reason: "string option")

text \<open>The \<^verbatim>\<open>usage\<close> object of the non-streaming branch.\<close>

definition openai_usage_of :: "wire_usage option \<Rightarrow> usage" where
  "openai_usage_of u =
     \<lparr>inputTokens = or_num (case u of None \<Rightarrow> None | Some w \<Rightarrow> prompt_tokens w) 0,
      outputTokens = or_num (case u of None \<Rightarrow> None | Some w \<Rightarrow> completion_tokens w) 0,
      totalTokens = Some (or_num (case u of None \<Rightarrow> None | Some w \<Rightarrow> total_tokens w) 0)\<rparr>"

text \<open>
  \<^verbatim>\<open>request\<close> from the result of \<^verbatim>\<open>fetch\<close> on, with the callbacks it calls. \<open>decode\<close> is
  \<^verbatim>\<open>JSON.parse\<close> with the typed view of an OK body; \<open>None\<close> when \<^verbatim>\<open>JSON.parse\<close> or a
  read of the value throws (the model gives both the name SyntaxError). On an error body
  that is \<^verbatim>\<open>null\<close> the read \<^verbatim>\<open>errorBody.error\<close> throws a TypeError.
\<close>

definition openai_request ::
  "(string \<Rightarrow> json option) \<Rightarrow> (string \<Rightarrow> openai_response option) \<Rightarrow> hooks \<Rightarrow> bool
     \<Rightarrow> fetch_result \<Rightarrow> generate_result promise \<times> (message, openai_response) hook_event list"
where
  "openai_request parse decode h stream fr =
     (case fr of
        FetchRejected msg \<Rightarrow> outer_catch h stream [] (ReadRejected msg)
      | Fetched resp \<Rightarrow>
          if \<not> stream then
            (case body resp of
               BodyRejected msg \<Rightarrow> outer_catch h stream [] (ReadRejected msg)
             | BodyText responseText \<Rightarrow>
                 if \<not> ok resp then
                   (let errorBody = error_body parse resp responseText
                    in if errorBody = JNull then outer_catch h stream [] TypeError
                       else (let err = ApiError (http_status resp)
                                         [error_field errorBody ''message'']
                             in (Resolved error_result,
                                 if onError h then [OnError err (RawBody errorBody)] else [])))
                 else
                   (case decode responseText of
                      None \<Rightarrow> outer_catch h stream [] SyntaxError
                    | Some responseData \<Rightarrow>
                        (let finalMsg = \<lparr>role = assistant,
                                          content = Text (or_str (resp_content responseData) []),
                                          toolCalls = resp_tool_calls responseData\<rparr>;
                             u = openai_usage_of (resp_usage responseData);
                             log1 = (if onMessage h then [OnMessage stop finalMsg responseData]
                                     else []);
                             log2 = (if onFinish h
                                     then log1 @ [OnFinish (Some finalMsg) (Some u)
                                                    (or_null (resp_finish_reason responseData))]
                                     else log1)
                         in (Resolved (NonStreaming
                               \<lparr>ns_response = Some finalMsg, ns_usage = Some u,
                                ns_stopReason = resp_finish_reason responseData\<rparr>), log2))))
          else if \<not> ok resp then
            (let errorBody = stream_error_body parse resp
             in if errorBody = JNull then outer_catch h stream [] TypeError
                else (let err = ApiError (http_status resp) [error_field errorBody ''message'']
                      in outer_catch h stream
                           (if onError h then [OnError err (RawBody errorBody)] else []) err))
          else (Resolved Streaming, []))"

subsection \<open>Anthropic\<close>

datatype a_block = TextBlock string | ToolUseBlock string string json | OtherBlock

datatype anthropic_response =
  AnthropicResponse (resp_blocks: "a_block list option") (resp_input_tokens: "int option")
    (resp_output_tokens: "int option") (resp_stop_reason: "string option")




section \<open>Notions the properties are stated with\<close>

text \<open>Whether one of the lines is the end-of-stream sentinel of the line grammar.\<close>

definition has_done :: "string list \<Rightarrow> bool" where
  "has_done lines = list_ex (\<lambda>line. startsWith line ''data: '' \<and> substring line 6 = ''[DONE]'') lines"

text \<open>The text increments of the lines before the sentinel, in order.\<close>

fun line_texts :: "(string \<Rightarrow> openai_chunk option) \<Rightarrow> string list \<Rightarrow> string list" where
  "line_texts decode [] = []"
| "line_texts decode (line # lines) =
     (if startsWith line ''data: ''
      then (if substring line 6 = ''[DONE]'' then []
            else (case decode (substring line 6) of
                    None \<Rightarrow> line_texts decode lines
                  | Some parsed \<Rightarrow>
                      (if truthy_str (first_content parsed)
                       then the (first_content parsed) # line_texts decode lines
                       else line_texts decode lines)))
      else line_texts decode lines)"

text \<open>A parsed frame that carries text, a finish reason, or one fragment of the arguments
  of the tool call at an index, and nothing else.\<close>

definition text_chunk :: "string \<Rightarrow> openai_chunk" where
  "text_chunk t = OpenAIChunk (Some [Choice (Some (Delta (Some t) None)) None]) None"

definition finish_chunk :: "string \<Rightarrow> openai_chunk" where
  "finish_chunk r = OpenAIChunk (Some [Choice (Some (Delta None None)) (Some r)]) None"



text \<open>The three values the deferred accessors give in a state.\<close>

definition accessors :: "openai_stream \<Rightarrow> message \<times> usage \<times> string option" where
  "accessors st = (finalResponse st, usage_accessor st, stopReason st)"

definition a_accessors :: "anthropic_stream \<Rightarrow> message \<times> usage \<times> string option" where
  "a_accessors st = (fst (a_finalResponse st), a_usage st, a_stopReason st)"

section \<open>Example streams\<close>

text \<open>A frame of the line grammar, and a block of the named-event grammar.\<close>

definition sse :: "string \<Rightarrow> string" where
  "sse payload = ''data: '' @ payload @ [nl, nl]"

definition a_sse :: "string \<Rightarrow> string \<Rightarrow> string" where
  "a_sse name payload = ''event: '' @ name @ [nl] @ ''data: '' @ payload @ [nl, nl]"

definition all_hooks :: hooks where
  "all_hooks = \<lparr>onMessage = True, onError = True, onFinish = True\<rparr>"

definition no_onMessage :: hooks where
  "no_onMessage = \<lparr>onMessage = False, onError = True, onFinish = True\<rparr>"

definition wire_hel :: string where
  \<open>wire_hel = ''{"choices":[{"delta":{"content":"Hel"}}]}''\<close>

definition wire_lo :: string where
  \<open>wire_lo = ''{"choices":[{"delta":{"content":"lo"}}]}''\<close>

definition wire_stop :: string where
  \<open>wire_stop = ''{"choices":[{"delta":{},"finish_reason":"stop"}]}''\<close>

definition wire_length :: string where
  \<open>wire_length = ''{"choices":[{"delta":{},"finish_reason":"length"}]}''\<close>

definition wire_usage99 :: string where
  \<open>wire_usage99 =
     ''{"choices":[],"usage":{"prompt_tokens":10,"completion_tokens":5,"total_tokens":99}}''\<close>

definition wire_usage_no_total :: string where
  \<open>wire_usage_no_total = ''{"choices":[],"usage":{"prompt_tokens":10,"completion_tokens":5}}''\<close>

text \<open>
  \<^verbatim>\<open>JSON.parse\<close> with the typed view on the payloads of the examples: each payload listed
  is mapped to what \<^verbatim>\<open>JSON.parse\<close> gives for it; the other strings the examples hand to
  it are cut-off payloads, on which it throws.
\<close>

definition example_decode :: "string \<Rightarrow> openai_chunk option" where
  "example_decode =
     map_of
       [(wire_hel, text_chunk ''Hel''),
        (wire_lo, text_chunk ''lo''),
        (wire_stop, finish_chunk ''stop''),
        (wire_length, finish_chunk ''length''),
        (wire_usage99, OpenAIChunk (Some []) (Some (WireUsage (Some 10) (Some 5) (Some 99)))),
        (wire_usage_no_total, OpenAIChunk (Some []) (Some (WireUsage (Some 10) (Some 5) None)))]"

definition hello_reads :: "read_result list" where
  "hello_reads =
     [ReadChunk (sse wire_hel), ReadChunk (sse wire_lo),
      ReadChunk (sse wire_stop @ sse ''[DONE]''), ReadDone]"

definition a_wire_start :: string where
  \<open>a_wire_start = ''{"type":"message_start","message":{"usage":{"input_tokens":10}}}''\<close>

definition a_wire_hel :: string where
  \<open>a_wire_hel =
     ''{"type":"content_block_delta","index":0,"delta":{"type":"text_delta","text":"Hel"}}''\<close>

definition a_wire_lo :: string where
  \<open>a_wire_lo =
     ''{"type":"content_block_delta","index":0,"delta":{"type":"text_delta","text":"lo"}}''\<close>

definition a_wire_json_open :: string where
  \<open>a_wire_json_open =
     ''{"type":"content_block_delta","index":0,"delta":{"type":"input_json_delta","partial_json":"{"}}''\<close>

definition a_wire_json_close :: string where
  \<open>a_wire_json_close =
     ''{"type":"content_block_delta","index":0,"delta":{"type":"input_json_delta","partial_json":"}"}}''\<close>

definition a_wire_end_turn :: string where
  \<open>a_wire_end_turn =
     ''{"type":"message_delta","delta":{"stop_reason":"end_turn"},"usage":{"output_tokens":5}}''\<close>

definition a_wire_max_tokens :: string where
  \<open>a_wire_max_tokens =
     ''{"type":"message_delta","delta":{"stop_reason":"max_tokens"},"usage":{"output_tokens":7}}''\<close>

text \<open>The same for the payloads of the named-event examples.\<close>

definition a_example_decode :: "string \<Rightarrow> anthropic_event option" where
  "a_example_decode =
     map_of
       [(a_wire_start, AnthropicEvent (Some 10) None None None None),
        (a_wire_hel, AnthropicEvent None (Some (TextDelta ''Hel'')) (Some 0) None None),
        (a_wire_lo, AnthropicEvent None (Some (TextDelta ''lo'')) (Some 0) None None),
        (a_wire_json_open, AnthropicEvent None (Some (InputJsonDelta ''{'')) (Some 0) None None),
        (a_wire_json_close, AnthropicEvent None (Some (InputJsonDelta ''}'')) (Some 0) None None),
        (a_wire_end_turn,
           AnthropicEvent None (Some (PlainDelta (Some ''end_turn''))) None (Some 5) None),
        (a_wire_max_tokens,
           AnthropicEvent None (Some (PlainDelta (Some ''max_tokens''))) None (Some 7) None)]"

text \<open>\<^verbatim>\<open>JSON.parse\<close> on the bodies of the example responses; it throws on the last.\<close>

definition rate_limit_text :: string where
  \<open>rate_limit_text = ''{"error":{"message":"Rate limit reached","type":"rate_limit_error"}}''\<close>

definition example_parse :: "string \<Rightarrow> json option" where
  "example_parse =
     map_of
       [(rate_limit_text,
           JObj [(''error'', JObj [(''message'', JStr ''Rate limit reached''),
                                   (''type'', JStr ''rate_limit_error'')])]),
        (''null'', JNull),
        (''{}'', JObj [])]"




definition bad_gateway :: http_response where
  "bad_gateway = HttpResponse False 502 ''Bad Gateway'' (BodyText ''<html>Bad Gateway</html>'')"






section \<open>Properties\<close>

subsection \<open>What a frame of the line grammar changes\<close>

lemma apply_chunk_fan_out [simp]:
  "enqueued (apply_chunk h st c) = enqueued st"
  "status (apply_chunk h st c) = status st"
  "finished (apply_chunk h st c) = finished st"
  by (simp_all add: apply_chunk_def update_usage_def update_stop_reason_def message_block_def
      Let_def split: option.splits)

lemma frame_error_fields [simp]:
  "enqueued (frame_error h st d) = enqueued st"
  "status (frame_error h st d) = status st"
  "finished (frame_error h st d) = finished st"
  "aggregatedContent (frame_error h st d) = aggregatedContent st"
  "aggregatedToolCalls (frame_error h st d) = aggregatedToolCalls st"
  "finalStopReason (frame_error h st d) = finalStopReason st"
  "finalUsage (frame_error h st d) = finalUsage st"
  by (simp_all add: frame_error_def)




lemma processLines_fan_out [simp]:
  "enqueued (processLines d h st ls) = enqueued st"
  "status (processLines d h st ls) = status st"
  "finished (processLines d h st ls) = finished st"
  by (induction ls arbitrary: st) (simp_all add: Let_def split: option.splits)

lemma has_done_simps [simp]:
  "has_done [] = False"
  "has_done (l # ls) = ((startsWith l ''data: '' \<and> substring l 6 = ''[DONE]'') \<or> has_done ls)"
  "has_done (xs @ ys) = (has_done xs \<or> has_done ys)"
  by (simp_all add: has_done_def)

text \<open>The second pass only appends to the queue, and closes the stream at the sentinel.\<close>

lemma enqueueLines_eq:
  "enqueueLines d st ls =
     (has_done ls,
      st\<lparr>enqueued := enqueued st @ line_texts d ls,
         status := (if has_done ls then Closed else status st)\<rparr>)"
  by (induction ls arbitrary: st) (simp_all add: Let_def split: option.splits)

lemma finally_block_finished [simp]: "finished (finally_block h t st)"
  by (simp add: finally_block_def Let_def)

subsection \<open>Stop reasons\<close>







subsection \<open>A frame that does not parse\<close>


lemma all_hooks_simps [simp]: "onMessage all_hooks" "onError all_hooks" "onFinish all_hooks"
  by (simp_all add: all_hooks_def)





subsection \<open>Chunk boundaries\<close>

lemma split_nl_not_Nil [simp]: "split_nl s \<noteq> []"
  by (induction s) (auto split: list.splits)


lemma non_blank_append [simp]: "non_blank (xs @ ys) = non_blank xs @ non_blank ys"
  by (simp add: non_blank_def)










subsection \<open>The end of a stream\<close>

lemma finally_block_accessors: "accessors (finally_block h t st) = accessors st"
  by (simp add: accessors_def finalResponse_def usage_accessor_def stopReason_def
      finalMessage_def finally_block_def Let_def)

lemma catch_block_accessors: "accessors (catch_block h st e) = accessors st"
  by (simp add: accessors_def finalResponse_def usage_accessor_def stopReason_def
      finalMessage_def catch_block_def Let_def)

lemma a_finally_block_accessors: "a_accessors (a_finally_block h st) = a_accessors st"
  by (simp add: a_accessors_def a_finalResponse_def a_usage_def a_stopReason_def
      a_finally_block_def Let_def)

lemma a_catch_block_accessors: "a_accessors (a_catch_block h st e) = a_accessors st"
  by (simp add: a_accessors_def a_finalResponse_def a_usage_def a_stopReason_def
      a_catch_block_def a_error_def Let_def)

lemma end_of_reads_accessors:
  "accessors (on_read d h t st (ReadFails e)) = accessors st"
  "accessors (on_read d h t st ReadDone) = accessors st"
  "a_accessors (a_on_read ad h ast (ReadFails e)) = a_accessors ast"
  "a_accessors (a_on_read ad h ast ReadDone) = a_accessors ast"
  by (simp_all add: on_read_def a_on_read_def finally_block_accessors catch_block_accessors
      a_finally_block_accessors a_catch_block_accessors)

lemma error_event_accessors:
  "fst (handle_event h ast ''error'' dataStr ev) = Return"
  "a_accessors (snd (handle_event h ast ''error'' dataStr ev)) = a_accessors ast"
  by (simp_all add: handle_event_def Let_def a_error_def a_accessors_def a_finalResponse_def
      a_usage_def a_stopReason_def)

text \<open>
  C6, as the code has it: when a read fails after some chunks, the three accessors give
  exactly what the chunks before the failure have aggregated, and exactly what they give
  when the body ends cleanly at the same point; an in-band \<^verbatim>\<open>error\<close> event of the
  Anthropic stream ends \<^verbatim>\<open>start\<close> and leaves the three values as they were. No value
  the accessors return says that the stream failed.
\<close>

theorem failed_stream_looks_like_finished_stream:
  "accessors (openai_run d h t (reads @ [ReadFails e])) = accessors (openai_run d h t reads)
   \<and> accessors (openai_run d h t (reads @ [ReadDone])) = accessors (openai_run d h t reads)
   \<and> a_accessors (anthropic_run ad h (reads @ [ReadFails e]))
       = a_accessors (anthropic_run ad h reads)
   \<and> a_accessors (anthropic_run ad h (reads @ [ReadDone]))
       = a_accessors (anthropic_run ad h reads)
   \<and> fst (handle_event h ast ''error'' dataStr ev) = Return
   \<and> a_accessors (snd (handle_event h ast ''error'' dataStr ev)) = a_accessors ast"
  by (simp add: openai_run_def anthropic_run_def end_of_reads_accessors error_event_accessors)

text \<open>
  C6 as stated fails: a stream whose second read is rejected and a stream that ends after
  the same chunk give the same message, usage and stop reason; the text \<^verbatim>\<open>Hel\<close> is
  exposed, and nothing marks the first result as incomplete.
\<close>

theorem failed_stream_carries_no_marker:
  "accessors (openai_run example_decode all_hooks 0
      [ReadChunk (sse wire_hel), ReadFails ''ECONNRESET''])
     = (\<lparr>role = assistant, content = Text ''Hel'', toolCalls = None\<rparr>,
        \<lparr>inputTokens = 0, outputTokens = 0, totalTokens = Some 0\<rparr>, None)
   \<and> accessors (openai_run example_decode all_hooks 0 [ReadChunk (sse wire_hel), ReadDone])
     = (\<lparr>role = assistant, content = Text ''Hel'', toolCalls = None\<rparr>,
        \<lparr>inputTokens = 0, outputTokens = 0, totalTokens = Some 0\<rparr>, None)
   \<and> status (openai_run example_decode all_hooks 0
        [ReadChunk (sse wire_hel), ReadFails ''ECONNRESET'']) = Errored"
  by code_simp

subsection \<open>Usage\<close>




subsection \<open>A response that is not OK\<close>







text \<open>
  A body that is not JSON reaches \<^verbatim>\<open>onError\<close> as the stand-in object.
\<close>

lemma unparsable_body_stand_in:
  "openai_request example_parse (\<lambda>s. None) all_hooks False (Fetched bad_gateway)
     = (Resolved error_result,
        [OnError (ApiError 502 [Some (JStr ''Bad Gateway'')])
           (RawBody (JObj [(''message'', JStr ''Bad Gateway''),
                           (''details'', JStr ''<html>Bad Gateway</html>'')]))])"
  by (simp add: openai_request_def bad_gateway_def error_body_def example_parse_def
      rate_limit_text_def error_field_def or_json_def opt_prop_def get_prop_def truthy_json_def)


subsection \<open>Tool calls\<close>








subsection \<open>Text\<close>

lemma apply_chunk_content:
  "aggregatedContent (apply_chunk h st c) =
     aggregatedContent st @
       (if onMessage h \<and> truthy_str (first_content c) then the (first_content c) else [])"
  by (simp add: apply_chunk_def update_usage_def update_stop_reason_def message_block_def
      first_content_def Let_def split: option.splits)

lemma processLines_content:
  "aggregatedContent (processLines d h st ls) =
     aggregatedContent st @ (if onMessage h then concat (line_texts d ls) else [])"
  by (induction ls arbitrary: st) (simp_all add: apply_chunk_content Let_def split: option.splits)

lemma end_blocks_text [simp]:
  "aggregatedContent (finally_block h t st) = aggregatedContent st"
  "enqueued (finally_block h t st) = enqueued st"
  "aggregatedContent (catch_block h st e) = aggregatedContent st"
  "enqueued (catch_block h st e) = enqueued st"
  by (simp_all add: finally_block_def catch_block_def Let_def)

lemma on_read_stream_text:
  assumes "onMessage h" and "concat (enqueued st) = aggregatedContent st"
  shows "concat (enqueued (on_read d h t st r)) = aggregatedContent (on_read d h t st r)"
  using assms
  by (cases r)
    (simp_all add: on_read_def processChunk_def enqueueLines_eq processLines_content Let_def)

lemma on_read_no_callback:
  assumes "\<not> onMessage h" and "aggregatedContent st = []"
  shows "aggregatedContent (on_read d h t st r) = []"
  using assms
  by (cases r)
    (simp_all add: on_read_def processChunk_def enqueueLines_eq processLines_content Let_def)

text \<open>
  When the caller passes \<^verbatim>\<open>onMessage\<close>, the two passes of the OpenAI stream agree at
  every moment: the strings enqueued so far join to the aggregated content.
\<close>

lemma stream_text_is_content:
  "onMessage h \<Longrightarrow>
     concat (enqueued (openai_run d h t reads)) = aggregatedContent (openai_run d h t reads)"
  unfolding openai_run_def
  by (induction reads rule: rev_induct) (simp_all add: on_read_stream_text openai_init_def)

text \<open>When the caller passes none, the aggregated content stays empty, whatever is read.\<close>

lemma no_callback_no_content:
  "\<not> onMessage h \<Longrightarrow> aggregatedContent (openai_run d h t reads) = []"
  unfolding openai_run_def
  by (induction reads rule: rev_induct) (simp_all add: on_read_no_callback openai_init_def)

text \<open>
  In the Anthropic stream \<^verbatim>\<open>start\<close> ends with the first chunk, so the reads after it
  change nothing.
\<close>

lemma a_finally_block_finished [simp]: "finished (a_finally_block h st)"
  by (simp add: a_finally_block_def Let_def)

lemma a_on_read_finished: "finished st \<Longrightarrow> a_on_read d h st r = st"
  by (simp add: a_on_read_def)

lemma a_on_read_chunk_finishes: "finished (a_on_read d h st (ReadChunk c))"
  by (simp add: a_on_read_def split: prod.splits outcome.splits)

lemma a_reads_after_finished: "finished st \<Longrightarrow> foldl (a_on_read d h) st reads = st"
  by (induction reads) (simp_all add: a_on_read_finished)

lemma anthropic_reads_one_chunk:
  "anthropic_run d h (ReadChunk c # reads) = anthropic_run d h [ReadChunk c]"
  by (simp add: anthropic_run_def a_reads_after_finished a_on_read_chunk_finishes)

text \<open>
  C7 does not hold of the code. In the OpenAI stream the statement that appends a text
  delta stands inside \<^verbatim>\<open>if (onMessage)\<close>: for a caller without that callback the text
  deltas \<^verbatim>\<open>Hel\<close> and \<^verbatim>\<open>lo\<close> reach \<^verbatim>\<open>textStream\<close> and the aggregated content stays
  empty; with the callback it is \<^verbatim>\<open>Hello\<close>. In the Anthropic stream the reference to
  \<^verbatim>\<open>eventName\<close> after the first chunk throws, so the text delta of a second chunk is
  never appended.
\<close>

theorem text_is_aggregated_only_for_onMessage:
  "enqueued (openai_run example_decode no_onMessage 0 hello_reads) = [''Hel'', ''lo'']
   \<and> aggregatedContent (openai_run example_decode no_onMessage 0 hello_reads) = []
   \<and> aggregatedContent (openai_run example_decode all_hooks 0 hello_reads) = ''Hello''
   \<and> aggregatedTextContent (anthropic_run a_example_decode all_hooks
        [ReadChunk (a_sse ''content_block_delta'' a_wire_hel),
         ReadChunk (a_sse ''content_block_delta'' a_wire_lo), ReadDone]) = ''Hel''
   \<and> hook_log (anthropic_run a_example_decode all_hooks
        [ReadChunk (a_sse ''content_block_delta'' a_wire_hel)]) ! 1
      = OnError (ReferenceError ''eventName'') (RawThrown (ReferenceError ''eventName''))"
  by code_simp

text \<open>
  C9 does not hold of the code, by the same \<^verbatim>\<open>if (onMessage)\<close>: for a caller without
  that callback the second pass enqueues \<^verbatim>\<open>Hel\<close> and \<^verbatim>\<open>lo\<close>, and after the stream has
  drained \<^verbatim>\<open>finalResponse()\<close> returns the empty content.
\<close>

theorem stream_text_differs_from_final_content:
  "concat (enqueued (openai_run example_decode no_onMessage 0 hello_reads)) = ''Hello''
   \<and> finished (openai_run example_decode no_onMessage 0 hello_reads)
   \<and> content (finalResponse (openai_run example_decode no_onMessage 0 hello_reads)) = Text []"
  by code_simp

subsection \<open>The accessors before the end\<close>

text \<open>
  C1 does not hold of the code: the accessors do not wait. Called before the first read
  they give the empty content; called after the first of the chunks, while \<^verbatim>\<open>start\<close>
  waits for the second, they give the content \<^verbatim>\<open>Hel\<close> and no stop reason; only after
  the stream has drained they give \<^verbatim>\<open>Hello\<close> and \<^verbatim>\<open>stop\<close>.
\<close>

theorem accessor_before_end_of_stream:
  "content (finalResponse openai_init) = Text []
   \<and> fst (a_finalResponse anthropic_init)
      = \<lparr>role = assistant, content = Parts [], toolCalls = None\<rparr>
   \<and> finished (openai_run example_decode all_hooks 0 (take 1 hello_reads)) = False
   \<and> accessors (openai_run example_decode all_hooks 0 (take 1 hello_reads))
      = (\<lparr>role = assistant, content = Text ''Hel'', toolCalls = None\<rparr>,
         \<lparr>inputTokens = 0, outputTokens = 0, totalTokens = Some 0\<rparr>, None)
   \<and> finished (openai_run example_decode all_hooks 0 hello_reads) = True
   \<and> accessors (openai_run example_decode all_hooks 0 hello_reads)
      = (\<lparr>role = assistant, content = Text ''Hello'', toolCalls = None\<rparr>,
         \<lparr>inputTokens = 0, outputTokens = 0, totalTokens = Some 0\<rparr>, Some ''stop'')"
  by code_simp

end
